theory Spec2Isabelle
  imports Main
begin

section \<open>JavaScript values used by worker-helpers.js\<close>

text \<open>
  A JavaScript value that is a string, \<open>null\<close> or \<open>undefined\<close> is a \<open>string option\<close>
  (\<open>None\<close> for \<open>null\<close>/\<open>undefined\<close>). In a condition such a value is falsy when it is
  \<open>null\<close>, \<open>undefined\<close> or the empty string.
\<close>

definition truthy :: "string option \<Rightarrow> bool" where
  "truthy v = (case v of None \<Rightarrow> False | Some s \<Rightarrow> s \<noteq> [])"

text \<open>\<open>v || ''\<close>\<close>

definition or_empty :: "string option \<Rightarrow> string" where
  "or_empty v = (if truthy v then the v else [])"

subsection \<open>Set and Map\<close>

text \<open>
  A JavaScript \<open>Set\<close> is the list of its elements in insertion order, without
  duplicates. A \<open>Map\<close> is the list of its entries in insertion order; \<open>keys()\<close>
  iterates over the first components.
\<close>

definition Set_add :: "'a list \<Rightarrow> 'a \<Rightarrow> 'a list" where
  "Set_add s x = (if x \<in> set s then s else s @ [x])"

definition new_Set :: "'a list \<Rightarrow> 'a list" where
  "new_Set xs = foldl Set_add [] xs"

definition Set_delete :: "'a list \<Rightarrow> 'a \<Rightarrow> 'a list" where
  "Set_delete s x = removeAll x s"

definition Set_size :: "'a list \<Rightarrow> nat" where
  "Set_size s = length s"

definition keys :: "('k \<times> 'v) list \<Rightarrow> 'k list" where
  "keys m = map fst m"

section \<open>didRulesChange\<close>

text \<open>
  \<^verbatim>\<open>currentRuleIds.forEach(rule => newRulesIds.delete(rule))\<close> is a left fold of
  \<open>Set_delete\<close> over the elements of \<open>currentRuleIds\<close>.
\<close>

definition didRulesChange :: "('k \<times> 'v) list \<Rightarrow> ('k \<times> 'w) list \<Rightarrow> bool" where
  "didRulesChange currentRules newRules =
     (let rulesChanged = False;
          currentRuleIds = new_Set (keys currentRules);
          newRuleIds = new_Set (keys newRules);
          newRulesIds = new_Set (keys newRules);
          newRulesIds = foldl Set_delete newRulesIds currentRuleIds;
          rulesChanged = (if Set_size newRulesIds > 0 then True else rulesChanged);
          removedRuleIds = new_Set currentRuleIds;
          removedRuleIds = foldl Set_delete removedRuleIds newRuleIds;
          rulesChanged = (if Set_size removedRuleIds > 0 then True else rulesChanged)
      in rulesChanged)"

section \<open>The runtime seen by the helpers\<close>

text \<open>
  The helpers call Node's \<open>path\<close>, \<open>fs\<close> and \<open>child_process\<close> modules, \<open>require\<close>,
  and the packages fs-plus, resolve-env, atom-linter and consistent-path. None of
  these is part of this repository; each call is a field of the record \<open>env\<close>, and
  the functions below are defined for every such record. A field whose result
  depends on the working directory of the process takes it as its first argument.
\<close>

text \<open>The exception a failed \<open>require\<close> throws, with its \<open>code\<close> property.\<close>

datatype require_error = RequireError (error_code: "string option")

text \<open>
  The object \<open>ChildProcess.spawnSync\<close> returns: \<open>output\<close> is \<open>null\<close> when the child
  could not be spawned, otherwise the array \<open>[null, stdout, stderr]\<close>; \<open>status\<close> is
  the exit code, \<open>null\<close> when the child was killed by a signal. Evaluating the
  call, its arguments included, can also throw. The options of the call (the
  environment with the \<open>PATH\<close> of consistent-path) are part of the runtime.
\<close>

datatype spawn_result = SpawnResult (spawn_output: "string option list option") (spawn_status: "int option")

datatype spawn_outcome = SpawnThrows | SpawnReturns spawn_result

record 'm env =
  platform :: string
  resolveEnv :: "string \<Rightarrow> string"
  fs_normalize :: "string \<Rightarrow> string"
  fs_statSync :: "string \<Rightarrow> string \<Rightarrow> bool option"
  Path_join :: "string list \<Rightarrow> string"
  Path_isAbsolute :: "string \<Rightarrow> bool"
  Path_dirname :: "string \<Rightarrow> string"
  Path_basename :: "string \<Rightarrow> string"
  Path_resolve :: "string \<Rightarrow> string list \<Rightarrow> string"
  Path_relative :: "string \<Rightarrow> string \<Rightarrow> string \<Rightarrow> string"
  findCached :: "string \<Rightarrow> string \<Rightarrow> string list \<Rightarrow> string option"
  require :: "string \<Rightarrow> require_error + 'm"
  eslintConfig :: "'m \<Rightarrow> bool"
  spawnSync :: "string \<Rightarrow> string list \<Rightarrow> spawn_outcome"
  process_chdir :: "string \<Rightarrow> string \<Rightarrow> string option"

text \<open>
  \<open>fs_statSync E wd p\<close> is \<open>None\<close> when \<open>fs.statSync(p)\<close> throws and otherwise
  \<open>Some\<close> of \<open>isDirectory()\<close>; \<open>findCached\<close> takes the names as a list, a single
  name being the list of that name; \<open>eslintConfig E m\<close> is the truthiness of the
  property \<open>eslintConfig\<close> of a loaded module; \<open>process_chdir E wd dir\<close> is \<open>None\<close>
  when \<open>process.chdir(dir)\<close> throws (the directory does not exist or cannot be
  entered) and otherwise \<open>Some\<close> of the new working directory, which is \<open>dir\<close>
  resolved against the old one \<open>wd\<close>.

  The mutable state of the process: the entries of \<open>Cache\<close> that the functions
  below read or write (\<open>LAST_MODULES_PATH\<close> belongs to \<open>refreshModulesPath\<close> alone),
  the working directory, and the number of calls of \<open>ChildProcess.spawnSync\<close> made
  so far.
\<close>

record state =
  ESLINT_LOCAL_PATH :: string
  NODE_PREFIX_PATH :: "string option"
  cwd :: string
  spawns :: nat

text \<open>
  Every error the helpers throw themselves is a plain \<open>Error\<close> with a message; an
  exception of \<open>require\<close> that no handler catches is \<open>Uncaught\<close>; the exception
  of \<open>process.chdir\<close>, which no helper catches, is \<open>ChdirError\<close> with the directory
  that was asked for.
\<close>

datatype error = Error string | Uncaught require_error | ChdirError string

definition PrefixResolutionError :: error where
  "PrefixResolutionError =
     Error (''Unable to execute `npm get prefix`. Please make sure '' @
            ''Atom is getting $PATH correctly.'')"

definition PackageNotFoundError_path :: error where
  "PackageNotFoundError_path =
     Error ''ESLint not found, please ensure the global Node path is set correctly.''"

definition PackageNotFoundError_restart :: error where
  "PackageNotFoundError_restart =
     Error ''ESLint not found, try restarting Atom to clear caches.''"

definition is_PackageNotFoundError :: "error \<Rightarrow> bool" where
  "is_PackageNotFoundError e =
     (e = PackageNotFoundError_path \<or> e = PackageNotFoundError_restart)"

record config =
  useGlobalEslint :: bool
  globalNodePath :: "string option"
  advancedLocalNodeModules :: "string option"
  disableEslintIgnore :: bool
  eslintRulesDirs :: "string list"
  eslintrcPath :: "string option"

section \<open>cleanPath\<close>

definition cleanPath :: "'m env \<Rightarrow> string option \<Rightarrow> string" where
  "cleanPath E path =
     (if truthy path then resolveEnv E (fs_normalize E (the path)) else [])"

section \<open>getNodePrefixPath\<close>

text \<open>\<open>String.prototype.trim\<close> on the ASCII white space and line terminators.\<close>

definition is_space :: "char \<Rightarrow> bool" where
  "is_space c = (c \<in> set [CHR 0x20, CHR 0x09, CHR 0x0A, CHR 0x0B, CHR 0x0C, CHR 0x0D])"

definition trim :: "string \<Rightarrow> string" where
  "trim s = rev (dropWhile is_space (rev (dropWhile is_space s)))"

text \<open>
  \<^verbatim>\<open>spawnSync(...).output[1].toString()\<close>: \<open>None\<close> when the expression throws, that
  is when \<open>spawnSync\<close> throws, \<open>output\<close> is \<open>null\<close>, or \<open>output[1]\<close> is \<open>null\<close> or
  missing.
\<close>

definition output1_toString :: "spawn_outcome \<Rightarrow> string option" where
  "output1_toString r =
     (case r of
        SpawnThrows \<Rightarrow> None
      | SpawnReturns res \<Rightarrow>
          (case spawn_output res of
             None \<Rightarrow> None
           | Some arr \<Rightarrow> (if 1 < length arr then arr ! 1 else None)))"

definition getNodePrefixPath :: "'m env \<Rightarrow> state \<Rightarrow> (error + string) \<times> state" where
  "getNodePrefixPath E s =
     (case NODE_PREFIX_PATH s of
        Some prefix \<Rightarrow> (Inr prefix, s)
      | None \<Rightarrow>
          (let npmCommand = (if platform E = ''win32'' then ''npm.cmd'' else ''npm'');
               s1 = s\<lparr>spawns := Suc (spawns s)\<rparr>
           in case output1_toString (spawnSync E npmCommand [''get'', ''prefix'']) of
                None \<Rightarrow> (Inl PrefixResolutionError, s1)
              | Some text \<Rightarrow>
                  (Inr (trim text), s1\<lparr>NODE_PREFIX_PATH := Some (trim text)\<rparr>)))"

section \<open>findESLintDirectory\<close>

definition isDirectory :: "'m env \<Rightarrow> string \<Rightarrow> string \<Rightarrow> bool" where
  "isDirectory E wd dirPath =
     (case fs_statSync E wd dirPath of None \<Rightarrow> False | Some isDir \<Rightarrow> isDir)"

datatype locationType = Global | LocalProject | AdvancedSpecified | BundledFallback

record location =
  path :: string
  type :: locationType

text \<open>Lines 74 to 85: the answer once \<open>eslintDir\<close> and \<open>locationType\<close> are computed.\<close>

definition located :: "'m env \<Rightarrow> config \<Rightarrow> string \<Rightarrow> locationType \<Rightarrow> state \<Rightarrow> error + location" where
  "located E config eslintDir locationType s =
     (if isDirectory E (cwd s) eslintDir then
        Inr \<lparr>path = eslintDir, type = locationType\<rparr>
      else if useGlobalEslint config then Inl PackageNotFoundError_path
      else Inr \<lparr>path = ESLINT_LOCAL_PATH s, type = BundledFallback\<rparr>)"

text \<open>\<^verbatim>\<open>configGlobal || getNodePrefixPath()\<close>\<close>

definition prefixPath :: "'m env \<Rightarrow> config \<Rightarrow> state \<Rightarrow> (error + string) \<times> state" where
  "prefixPath E config s =
     (let configGlobal = cleanPath E (globalNodePath config)
      in if configGlobal \<noteq> [] then (Inr configGlobal, s) else getNodePrefixPath E s)"

definition findESLintDirectory ::
  "'m env \<Rightarrow> string option \<Rightarrow> config \<Rightarrow> string option \<Rightarrow> state \<Rightarrow> (error + location) \<times> state" where
  "findESLintDirectory E modulesDir config projectPath s =
     (if useGlobalEslint config then
        (case prefixPath E config s of
           (Inl e, s') \<Rightarrow> (Inl e, s')
         | (Inr prefix, s') \<Rightarrow>
             (let eslintDir = Path_join E [prefix, ''node_modules'', ''eslint''];
                  eslintDir =
                    (if \<not> isDirectory E (cwd s') eslintDir
                     then Path_join E [prefix, ''lib'', ''node_modules'', ''eslint'']
                     else eslintDir)
              in (located E config eslintDir Global s', s')))
      else if \<not> truthy (advancedLocalNodeModules config) then
        (located E config (Path_join E [or_empty modulesDir, ''eslint'']) LocalProject s, s)
      else if Path_isAbsolute E (cleanPath E (advancedLocalNodeModules config)) then
        (located E config
           (Path_join E [cleanPath E (advancedLocalNodeModules config), ''eslint''])
           AdvancedSpecified s, s)
      else
        (located E config
           (Path_join E [or_empty projectPath,
                         cleanPath E (advancedLocalNodeModules config), ''eslint''])
           AdvancedSpecified s, s))"

section \<open>getESLintFromDirectory\<close>

definition getESLintFromDirectory ::
  "'m env \<Rightarrow> string option \<Rightarrow> config \<Rightarrow> string option \<Rightarrow> state \<Rightarrow> (error + 'm) \<times> state" where
  "getESLintFromDirectory E modulesDir config projectPath s =
     (case findESLintDirectory E modulesDir config projectPath s of
        (Inl e, s') \<Rightarrow> (Inl e, s')
      | (Inr loc, s') \<Rightarrow>
          (case require E (path loc) of
             Inr m \<Rightarrow> (Inr m, s')
           | Inl e \<Rightarrow>
               (if useGlobalEslint config \<and> error_code e = Some ''MODULE_NOT_FOUND''
                then (Inl PackageNotFoundError_restart, s')
                else (case require E (ESLINT_LOCAL_PATH s') of
                        Inr m \<Rightarrow> (Inr m, s')
                      | Inl e' \<Rightarrow> (Inl (Uncaught e'), s')))))"

section \<open>getConfigPath\<close>

definition config_names :: "string list" where
  "config_names =
     [''.eslintrc.js'', ''.eslintrc.yaml'', ''.eslintrc.yml'', ''.eslintrc.json'',
      ''.eslintrc'', ''package.json'']"

text \<open>
  The function calls itself on the parent of a manifest without an \<open>eslintConfig\<close>
  section, and nothing in it bounds the number of calls: it is a partial function,
  \<open>None\<close> standing for a call that never returns. A call that returns gives
  \<open>Some\<close> of an uncaught exception of \<open>require\<close>, of a path, or of \<open>null\<close>.
  The function reads the working directory and changes no state.
\<close>

partial_function (option) getConfigPath ::
  "'m env \<Rightarrow> state \<Rightarrow> string \<Rightarrow> (error + string option) option" where
  "getConfigPath E s fileDir =
     (let configFile = findCached E (cwd s) fileDir config_names
      in if truthy configFile then
           (if Path_basename E (the configFile) = ''package.json'' then
              (case require E (the configFile) of
                 Inl e \<Rightarrow> Some (Inl (Uncaught e))
               | Inr m \<Rightarrow>
                   (if eslintConfig E m then Some (Inr configFile)
                    else getConfigPath E s
                           (Path_resolve E (cwd s) [Path_dirname E (the configFile), ''..''])))
            else Some (Inr configFile))
         else Some (Inr None))"

declare getConfigPath.simps [code]

section \<open>getRelativePath\<close>

text \<open>
  \<open>process.chdir(dir)\<close> either throws and leaves the working directory as it was,
  or makes the directory the working directory. No call of it in
  \<open>getRelativePath\<close> is inside a \<open>try\<close>: its exception ends the function.
\<close>

definition chdir :: "'m env \<Rightarrow> string \<Rightarrow> state \<Rightarrow> error + state" where
  "chdir E dir s =
     (case process_chdir E (cwd s) dir of
        None \<Rightarrow> Inl (ChdirError dir)
      | Some wd \<Rightarrow> Inr (s\<lparr>cwd := wd\<rparr>))"

definition getRelativePath ::
  "'m env \<Rightarrow> string \<Rightarrow> string \<Rightarrow> config \<Rightarrow> string option \<Rightarrow> state
     \<Rightarrow> (error + string) \<times> state" where
  "getRelativePath E fileDir filePath config projectPath s =
     (let ignoreFile =
            (if disableEslintIgnore config then None
             else findCached E (cwd s) fileDir [''.eslintignore''])
      in if truthy ignoreFile then
           (let ignoreDir = Path_dirname E (the ignoreFile)
            in case chdir E ignoreDir s of
                 Inl e \<Rightarrow> (Inl e, s)
               | Inr s' \<Rightarrow> (Inr (Path_relative E (cwd s') ignoreDir filePath), s'))
         else if truthy projectPath then
           (case chdir E (the projectPath) s of
              Inl e \<Rightarrow> (Inl e, s)
            | Inr s' \<Rightarrow> (Inr (Path_relative E (cwd s') (the projectPath) filePath), s'))
         else
           (case chdir E fileDir s of
              Inl e \<Rightarrow> (Inl e, s)
            | Inr s' \<Rightarrow> (Inr (Path_basename E filePath), s')))"

section \<open>getCLIEngineOptions\<close>

text \<open>
  A property that is not set on the options object is \<open>None\<close>; the property \<open>fix\<close>
  is the field \<open>fix'\<close>.
\<close>

record 'r cliEngineConfig =
  rules :: 'r
  ignore :: bool
  fix' :: bool
  ignorePath :: "string option"
  rulePaths :: "string list"
  configFile :: "string option"

text \<open>
  \<open>givenConfigPath\<close> is a path or \<open>null\<close>, as \<open>getConfigPath\<close> returns it. The
  function is given the state and returns it, so that what it leaves unchanged
  can be stated.
\<close>

definition getCLIEngineOptions ::
  "'m env \<Rightarrow> string \<Rightarrow> config \<Rightarrow> 'r \<Rightarrow> string \<Rightarrow> string \<Rightarrow> string option \<Rightarrow> state
     \<Rightarrow> 'r cliEngineConfig \<times> state" where
  "getCLIEngineOptions E type' config rules' filePath fileDir givenConfigPath s =
     (let cliEngineConfig =
            \<lparr>rules = rules', ignore = (\<not> disableEslintIgnore config), fix' = (type' = ''fix''),
             ignorePath = None, rulePaths = [], configFile = None\<rparr>;
          ignoreFile =
            (if disableEslintIgnore config then None
             else findCached E (cwd s) fileDir [''.eslintignore'']);
          cliEngineConfig =
            (if truthy ignoreFile then cliEngineConfig\<lparr>ignorePath := ignoreFile\<rparr>
             else cliEngineConfig);
          cliEngineConfig = cliEngineConfig
            \<lparr>rulePaths :=
               map the (filter truthy
                 (map (\<lambda>path.
                         (let rulesDir = cleanPath E (Some path)
                          in if \<not> Path_isAbsolute E rulesDir
                             then findCached E (cwd s) fileDir [rulesDir]
                             else Some rulesDir))
                      (eslintRulesDirs config)))\<rparr>;
          cliEngineConfig =
            (if givenConfigPath = None \<and> truthy (eslintrcPath config)
             then cliEngineConfig\<lparr>configFile := Some (cleanPath E (eslintrcPath config))\<rparr>
             else cliEngineConfig)
      in (cliEngineConfig, s))"

section \<open>A POSIX runtime over a fixed file system\<close>

text \<open>
  To run the helpers, the runtime is instantiated with Node's POSIX path functions
  on absolute paths and with a file system that does not change. A path is split
  at the separator into its non-empty chunks.
\<close>

fun split_sep :: "string \<Rightarrow> string list" where
  "split_sep [] = [[]]"
| "split_sep (c # cs) =
     (if c = CHR ''/'' then [] # split_sep cs
      else (case split_sep cs of [] \<Rightarrow> [[c]] | x # xs \<Rightarrow> (c # x) # xs))"

definition chunks :: "string \<Rightarrow> string list" where
  "chunks p = filter (\<lambda>c. c \<noteq> []) (split_sep p)"

fun join_sep :: "string list \<Rightarrow> string" where
  "join_sep [] = []"
| "join_sep [c] = c"
| "join_sep (c # cs) = c @ CHR ''/'' # join_sep cs"

definition absolute_of :: "string list \<Rightarrow> string" where
  "absolute_of cs = CHR ''/'' # join_sep cs"

definition relative_of :: "string list \<Rightarrow> string" where
  "relative_of cs = (if cs = [] then ''.'' else join_sep cs)"

text \<open>Resolving \<open>.\<close> and \<open>..\<close>: above the root \<open>..\<close> stays at the root.\<close>

definition normalize_absolute :: "string list \<Rightarrow> string list" where
  "normalize_absolute cs =
     foldl (\<lambda>acc c. if c = ''.'' then acc else if c = ''..'' then butlast acc else acc @ [c])
       [] cs"

definition normalize_relative :: "string list \<Rightarrow> string list" where
  "normalize_relative cs =
     foldl (\<lambda>acc c. if c = ''.'' then acc
                     else if c = ''..'' then
                       (if acc = [] \<or> last acc = ''..'' then acc @ [c] else butlast acc)
                     else acc @ [c])
       [] cs"

definition posix_isAbsolute :: "string \<Rightarrow> bool" where
  "posix_isAbsolute p = (case p of [] \<Rightarrow> False | c # _ \<Rightarrow> c = CHR ''/'')"

definition posix_normalize :: "string \<Rightarrow> string" where
  "posix_normalize p =
     (let r = (if posix_isAbsolute p then absolute_of (normalize_absolute (chunks p))
               else relative_of (normalize_relative (chunks p)))
      in if p \<noteq> [] \<and> last p = CHR ''/'' \<and> last r \<noteq> CHR ''/'' then r @ ''/'' else r)"

definition posix_join :: "string list \<Rightarrow> string" where
  "posix_join segs =
     (let joined = join_sep (filter (\<lambda>seg. seg \<noteq> []) segs)
      in if joined = [] then ''.'' else posix_normalize joined)"

definition posix_resolve :: "string \<Rightarrow> string list \<Rightarrow> string" where
  "posix_resolve wd segs =
     absolute_of (normalize_absolute
       (foldl (\<lambda>acc seg. if posix_isAbsolute seg then chunks seg else acc @ chunks seg)
          (chunks wd) segs))"

definition posix_dirname :: "string \<Rightarrow> string" where
  "posix_dirname p =
     (if posix_isAbsolute p then absolute_of (butlast (chunks p))
      else relative_of (butlast (chunks p)))"

definition posix_basename :: "string \<Rightarrow> string" where
  "posix_basename p = (case chunks p of [] \<Rightarrow> [] | c # cs \<Rightarrow> last (c # cs))"

fun strip_common :: "string list \<Rightarrow> string list \<Rightarrow> string list \<times> string list" where
  "strip_common (x # xs) (y # ys) =
     (if x = y then strip_common xs ys else (x # xs, y # ys))"
| "strip_common xs ys = (xs, ys)"

definition posix_relative :: "string \<Rightarrow> string \<Rightarrow> string \<Rightarrow> string" where
  "posix_relative wd from to =
     (case strip_common (chunks (posix_resolve wd [from])) (chunks (posix_resolve wd [to])) of
        (up, down) \<Rightarrow> join_sep (replicate (length up) ''..'' @ down))"

text \<open>
  Modelled from the spec: \<open>findCached\<close> of the package atom-linter, which is not
  under src/. It searches upward from the directory through its ancestors, the
  root included, and in each directory tries the names in their order; the first
  readable path is the answer, \<open>null\<close> when there is none. The file system being
  fixed, the cache of earlier answers does not show. \<open>find_up\<close> takes the chunks of
  the directory innermost first.
\<close>

fun find_in :: "(string \<Rightarrow> bool) \<Rightarrow> string \<Rightarrow> string list \<Rightarrow> string option" where
  "find_in readable currentDir [] = None"
| "find_in readable currentDir (fileName # names) =
     (let filePath = posix_join [currentDir, fileName]
      in if readable filePath then Some filePath else find_in readable currentDir names)"

fun find_up :: "(string \<Rightarrow> bool) \<Rightarrow> string list \<Rightarrow> string list \<Rightarrow> string option" where
  "find_up readable [] names = find_in readable ''/'' names"
| "find_up readable (c # outer) names =
     (case find_in readable (absolute_of (rev (c # outer))) names of
        Some filePath \<Rightarrow> Some filePath
      | None \<Rightarrow> find_up readable outer names)"

definition posix_findCached :: "(string \<Rightarrow> bool) \<Rightarrow> string \<Rightarrow> string list \<Rightarrow> string option" where
  "posix_findCached readable directory names = find_up readable (rev (chunks directory)) names"

text \<open>
  The file system: which paths can be read, which of them are directories, which
  paths \<open>require\<close> fails to load and with what exception, which manifests have an
  \<open>eslintConfig\<close> section, and what spawning \<open>npm get prefix\<close> gives. A loaded
  module is named by its path. The paths have no home-directory marker and no
  environment variable to expand.
\<close>

record fsys =
  readable :: "string \<Rightarrow> bool"
  directory :: "string \<Rightarrow> bool"
  load_failure :: "string \<Rightarrow> require_error option"
  embedded :: "string \<Rightarrow> bool"
  npm :: spawn_outcome

definition posix :: "fsys \<Rightarrow> string env" where
  "posix F =
     \<lparr>platform = ''linux'',
      resolveEnv = (\<lambda>p. p),
      fs_normalize = posix_normalize,
      fs_statSync =
        (\<lambda>wd p. let q = posix_resolve wd [p]
                 in if readable F q then Some (directory F q) else None),
      Path_join = posix_join,
      Path_isAbsolute = posix_isAbsolute,
      Path_dirname = posix_dirname,
      Path_basename = posix_basename,
      Path_resolve = posix_resolve,
      Path_relative = posix_relative,
      findCached = (\<lambda>wd. posix_findCached (readable F)),
      require = (\<lambda>p. case load_failure F p of Some e \<Rightarrow> Inl e | None \<Rightarrow> Inr p),
      eslintConfig = embedded F,
      spawnSync = (\<lambda>command args. npm F),
      process_chdir =
        (\<lambda>wd dir. let q = posix_resolve wd [dir]
                   in if readable F q \<and> directory F q then Some q else None)\<rparr>"

text \<open>
  A chunk is plain when it names a file or a directory: it is not empty, contains
  no separator, and is neither \<open>.\<close> nor \<open>..\<close>.
\<close>

definition plain :: "string \<Rightarrow> bool" where
  "plain c = (c \<noteq> [] \<and> CHR ''/'' \<notin> set c \<and> c \<noteq> ''.'' \<and> c \<noteq> ''..'')"

subsection \<open>Sample file systems\<close>

text \<open>
  \<open>fsys_of dirs files\<close> has the given directories and files; \<open>require\<close> loads
  each of them and fails with \<open>MODULE_NOT_FOUND\<close> elsewhere; no manifest has an
  \<open>eslintConfig\<close> section; \<open>npm get prefix\<close> prints \<open>/usr/local\<close> and exits with 0.
\<close>

definition fsys_of :: "string list \<Rightarrow> string list \<Rightarrow> fsys" where
  "fsys_of dirs files =
     \<lparr>readable = (\<lambda>p. p \<in> set (dirs @ files)),
      directory = (\<lambda>p. p \<in> set dirs),
      load_failure =
        (\<lambda>p. if p \<in> set (dirs @ files) then None
              else Some (RequireError (Some ''MODULE_NOT_FOUND''))),
      embedded = (\<lambda>p. False),
      npm = SpawnReturns (SpawnResult (Some [None, Some (''/usr/local'' @ [CHR 0x0A]), Some []])
              (Some 0))\<rparr>"

definition bundled :: string where
  "bundled = ''/atom/packages/linter-eslint/node_modules/eslint''"

definition fresh :: state where
  "fresh = \<lparr>ESLINT_LOCAL_PATH = bundled, NODE_PREFIX_PATH = None, cwd = ''/'', spawns = 0\<rparr>"

definition local_config :: config where
  "local_config =
     \<lparr>useGlobalEslint = False, globalNodePath = None, advancedLocalNodeModules = None,
      disableEslintIgnore = False, eslintRulesDirs = [], eslintrcPath = None\<rparr>"

definition global_config :: config where
  "global_config = local_config\<lparr>useGlobalEslint := True\<rparr>"

text \<open>A project with its own ESLint, an ignore file and a configuration file.\<close>

definition project_fs :: fsys where
  "project_fs =
     fsys_of [''/'', ''/proj'', ''/proj/node_modules'', ''/proj/node_modules/eslint'',
              ''/proj/src'', bundled]
             [''/proj/.eslintignore'', ''/proj/.eslintrc.json'', ''/proj/src/a.js'']"

text \<open>
  A global ESLint under the npm prefix. In \<open>broken_global_fs\<close> loading it throws an
  exception that has no \<open>code\<close> (the package throws while it is loaded); in
  \<open>unloadable_global_fs\<close> loading it fails with \<open>MODULE_NOT_FOUND\<close>.
\<close>

definition global_fs :: fsys where
  "global_fs =
     fsys_of [''/'', ''/usr'', ''/usr/local'', ''/usr/local/node_modules'',
              ''/usr/local/node_modules/eslint'', bundled] []"

definition broken_global_fs :: fsys where
  "broken_global_fs =
     global_fs\<lparr>load_failure :=
       (\<lambda>p. if p = ''/usr/local/node_modules/eslint'' then Some (RequireError None) else None)\<rparr>"

definition unloadable_global_fs :: fsys where
  "unloadable_global_fs =
     global_fs\<lparr>load_failure :=
       (\<lambda>p. if p = ''/usr/local/node_modules/eslint''
             then Some (RequireError (Some ''MODULE_NOT_FOUND'')) else None)\<rparr>"

text \<open>\<open>npm get prefix\<close> runs, prints nothing on its standard output and exits with 1.\<close>

definition npm_exit_1 :: spawn_outcome where
  "npm_exit_1 = SpawnReturns (SpawnResult (Some [None, Some [], Some ''npm ERR!'']) (Some 1))"

definition npm_failing_fs :: fsys where
  "npm_failing_fs = project_fs\<lparr>npm := npm_exit_1\<rparr>"

text \<open>\<open>npm\<close> cannot be spawned: the result has neither \<open>output\<close> nor \<open>status\<close>.\<close>

definition npm_missing_fs :: fsys where
  "npm_missing_fs = project_fs\<lparr>npm := SpawnReturns (SpawnResult None None)\<rparr>"

text \<open>Loading the ESLint of the project fails with \<open>MODULE_NOT_FOUND\<close>.\<close>

definition broken_local_fs :: fsys where
  "broken_local_fs =
     project_fs\<lparr>load_failure :=
       (\<lambda>p. if p = ''/proj/node_modules/eslint''
             then Some (RequireError (Some ''MODULE_NOT_FOUND'')) else None)\<rparr>"

text \<open>The only configuration candidate is the manifest \<open>/a/package.json\<close>.\<close>

definition manifest_fs :: fsys where
  "manifest_fs = fsys_of [''/'', ''/a'', ''/a/b'', ''/a/b/c''] [''/a/package.json'']"

text \<open>The only configuration candidate is the manifest \<open>/package.json\<close> in the root.\<close>

definition root_manifest_fs :: fsys where
  "root_manifest_fs = fsys_of [''/'', ''/a'', ''/a/b''] [''/package.json'']"

section \<open>Properties of the rule-set comparison\<close>

lemma set_foldl_Set_add: "set (foldl Set_add acc xs) = set acc \<union> set xs"
  by (induction xs arbitrary: acc) (auto simp: Set_add_def)

lemma set_new_Set: "set (new_Set xs) = set xs"
  by (simp add: new_Set_def set_foldl_Set_add)

lemma set_foldl_Set_delete: "set (foldl Set_delete acc xs) = set acc - set xs"
  by (induction xs arbitrary: acc) (auto simp: Set_delete_def)

lemma Set_size_pos: "(Set_size s > 0) = (set s \<noteq> {})"
  by (simp add: Set_size_def)

lemma didRulesChange_sets:
  "didRulesChange currentRules newRules =
     (set (keys newRules) - set (keys currentRules) \<noteq> {} \<or>
      set (keys currentRules) - set (keys newRules) \<noteq> {})"
  unfolding didRulesChange_def Let_def Set_size_pos set_foldl_Set_delete set_new_Set
  by simp

text \<open>
  C3. \<open>didRulesChange previous current\<close> is true exactly when the key set of
  \<open>current\<close> differs from the key set of \<open>previous\<close>; the order of the entries and
  the values stored under the keys play no role. On the four sample pairs of the
  specification it gives false, true, true and true.
\<close>

theorem didRulesChange_iff_key_sets_differ:
  "didRulesChange previous current = (set (keys current) \<noteq> set (keys previous))
   \<and> didRulesChange [(''x'', 1::int)] [(''x'', 1::int)] = False
   \<and> didRulesChange [(''x'', 1::int)] [(''x'', 1::int), (''y'', 2)] = True
   \<and> didRulesChange [(''x'', 1::int), (''y'', 2)] [(''x'', 1::int)] = True
   \<and> didRulesChange [(''x'', 1::int)] [(''y'', 1::int)] = True"
  by (auto simp: didRulesChange_sets keys_def)

section \<open>Properties of getNodePrefixPath\<close>

lemma output1_toString_not_spawned:
  "output1_toString SpawnThrows = None"
  "output1_toString (SpawnReturns (SpawnResult None st)) = None"
  by (simp_all add: output1_toString_def)

lemma output1_toString_stdout:
  "output1_toString (SpawnReturns (SpawnResult (Some (x # Some out # rest)) st)) = Some out"
  by (simp add: output1_toString_def)

text \<open>
  C8, as stated, fails: \<open>npm get prefix\<close> is spawned, prints nothing on its standard
  output and exits with status 1, and the call does not fail; it returns the
  empty string (and memoises it).
\<close>

theorem getNodePrefixPath_abnormal_exit_counterexample:
  "NODE_PREFIX_PATH fresh = None
   \<and> spawnSync (posix npm_failing_fs) ''npm'' [''get'', ''prefix'']
       = SpawnReturns (SpawnResult (Some [None, Some [], Some ''npm ERR!'']) (Some 1))
   \<and> getNodePrefixPath (posix npm_failing_fs) fresh
       = (Inr [], fresh\<lparr>spawns := 1, NODE_PREFIX_PATH := Some []\<rparr>)
   \<and> fst (getNodePrefixPath (posix npm_failing_fs) fresh) \<noteq> Inl PrefixResolutionError"
  by code_simp

text \<open>
  C8, amended. A memoised prefix is returned without spawning, and the state is
  left as it was. After a call that returned a prefix, every later call returns
  that prefix and spawns nothing, whatever the runtime has become. A call without
  a memoised prefix spawns exactly once. It fails with \<open>PrefixResolutionError\<close>,
  memoising nothing, whenever the child cannot be spawned: \<open>spawnSync\<close> throws or
  returns no \<open>output\<close>. When the standard output was captured, the call returns
  it trimmed and memoises it, whatever the exit status.
\<close>

theorem getNodePrefixPath_memoized:
  "(NODE_PREFIX_PATH s = Some prefix \<longrightarrow> getNodePrefixPath E s = (Inr prefix, s))
   \<and> (getNodePrefixPath E s = (Inr prefix, s') \<longrightarrow>
        getNodePrefixPath E' s' = (Inr prefix, s'))
   \<and> (NODE_PREFIX_PATH s = None \<longrightarrow> spawns (snd (getNodePrefixPath E s)) = Suc (spawns s))
   \<and> (NODE_PREFIX_PATH s = None \<and>
        (spawnSync E (if platform E = ''win32'' then ''npm.cmd'' else ''npm'') [''get'', ''prefix'']
           = SpawnThrows \<or>
         spawnSync E (if platform E = ''win32'' then ''npm.cmd'' else ''npm'') [''get'', ''prefix'']
           = SpawnReturns (SpawnResult None st)) \<longrightarrow>
        getNodePrefixPath E s = (Inl PrefixResolutionError, s\<lparr>spawns := Suc (spawns s)\<rparr>))
   \<and> (NODE_PREFIX_PATH s = None \<and>
        spawnSync E (if platform E = ''win32'' then ''npm.cmd'' else ''npm'') [''get'', ''prefix'']
           = SpawnReturns (SpawnResult (Some (x # Some out # rest)) st') \<longrightarrow>
        getNodePrefixPath E s
          = (Inr (trim out), s\<lparr>spawns := Suc (spawns s), NODE_PREFIX_PATH := Some (trim out)\<rparr>))"
  by (auto simp: getNodePrefixPath_def Let_def output1_toString_not_spawned
        output1_toString_stdout split: option.splits)

theorem getNodePrefixPath_memoized_witness:
  "getNodePrefixPath (posix project_fs) fresh
     = (Inr ''/usr/local'', fresh\<lparr>spawns := 1, NODE_PREFIX_PATH := Some ''/usr/local''\<rparr>)
   \<and> getNodePrefixPath (posix npm_missing_fs)
         (fresh\<lparr>spawns := 1, NODE_PREFIX_PATH := Some ''/usr/local''\<rparr>)
     = (Inr ''/usr/local'', fresh\<lparr>spawns := 1, NODE_PREFIX_PATH := Some ''/usr/local''\<rparr>)
   \<and> getNodePrefixPath (posix npm_missing_fs) fresh
     = (Inl PrefixResolutionError, fresh\<lparr>spawns := 1\<rparr>)"
proof -
  let ?s' = "fresh\<lparr>spawns := 1, NODE_PREFIX_PATH := Some ''/usr/local''\<rparr>"
  have n: "NODE_PREFIX_PATH fresh = None \<and> spawns fresh = 0" by code_simp
  have out: "spawnSync (posix project_fs)
        (if platform (posix project_fs) = ''win32'' then ''npm.cmd'' else ''npm'')
        [''get'', ''prefix'']
      = SpawnReturns (SpawnResult (Some (None # Some (''/usr/local'' @ [CHR 0x0A]) # [Some []]))
          (Some 0))"
    by code_simp
  have tr: "trim (''/usr/local'' @ [CHR 0x0A]) = ''/usr/local''" by code_simp
  from getNodePrefixPath_memoized
    [where E = "posix project_fs" and s = fresh and x = None
       and out = "''/usr/local'' @ [CHR 0x0A]" and rest = "[Some []]" and st' = "Some 0"
       and prefix = "[]" and s' = fresh and E' = "posix project_fs" and st = None]
    n out tr
  have first: "getNodePrefixPath (posix project_fs) fresh = (Inr ''/usr/local'', ?s')"
    by simp
  from getNodePrefixPath_memoized
    [where E = "posix project_fs" and s = fresh and E' = "posix npm_missing_fs"
       and prefix = "''/usr/local''" and s' = ?s'
       and x = None and out = "[]" and rest = "[]" and st = None and st' = None]
    first
  have later: "getNodePrefixPath (posix npm_missing_fs) ?s' = (Inr ''/usr/local'', ?s')"
    by blast
  have missing: "spawnSync (posix npm_missing_fs)
        (if platform (posix npm_missing_fs) = ''win32'' then ''npm.cmd'' else ''npm'')
        [''get'', ''prefix'']
      = SpawnReturns (SpawnResult None None)"
    by code_simp
  from getNodePrefixPath_memoized
    [where E = "posix npm_missing_fs" and s = fresh and st = None
       and prefix = "[]" and s' = fresh and E' = "posix project_fs"
       and x = None and out = "[]" and rest = "[]" and st' = None]
    n missing
  have failed: "getNodePrefixPath (posix npm_missing_fs) fresh
      = (Inl PrefixResolutionError, fresh\<lparr>spawns := 1\<rparr>)"
    by simp
  from first later failed show ?thesis by simp
qed

section \<open>Properties of findESLintDirectory\<close>

lemma findESLintDirectory_type_Global:
  "findESLintDirectory E modulesDir config projectPath s = (Inr loc, s') \<Longrightarrow>
     (type loc = Global) = useGlobalEslint config"
  by (auto simp: findESLintDirectory_def located_def Let_def
      split: prod.splits sum.splits if_splits)

text \<open>
  C1. Let \<open>useGlobalEslint\<close> be set and the prefix be resolved to \<open>prefix\<close> (the
  cleaned \<open>globalNodePath\<close> when it is not empty, otherwise what
  \<open>getNodePrefixPath\<close> returns). If neither \<open>prefix/node_modules/eslint\<close> nor
  \<open>prefix/lib/node_modules/eslint\<close> is a directory, \<open>findESLintDirectory\<close> fails
  with the error \<open>ESLint not found, please ensure the global Node path is set
  correctly.\<close> And with \<open>useGlobalEslint\<close> set it never returns a location of type
  bundled fallback.
\<close>

theorem findESLintDirectory_global_not_found:
  "useGlobalEslint config \<longrightarrow>
     (prefixPath E config s = (Inr prefix, s')
        \<and> \<not> isDirectory E (cwd s') (Path_join E [prefix, ''node_modules'', ''eslint''])
        \<and> \<not> isDirectory E (cwd s') (Path_join E [prefix, ''lib'', ''node_modules'', ''eslint''])
      \<longrightarrow> findESLintDirectory E modulesDir config projectPath s
            = (Inl PackageNotFoundError_path, s')
          \<and> is_PackageNotFoundError PackageNotFoundError_path)
     \<and> (\<forall>loc. fst (findESLintDirectory E modulesDir config projectPath s) = Inr loc
            \<longrightarrow> type loc \<noteq> BundledFallback)"
  by (auto simp: findESLintDirectory_def located_def Let_def is_PackageNotFoundError_def
      split: prod.splits sum.splits)

theorem findESLintDirectory_global_not_found_witness:
  "useGlobalEslint global_config
   \<and> prefixPath (posix project_fs) global_config fresh
       = (Inr ''/usr/local'', fresh\<lparr>spawns := 1, NODE_PREFIX_PATH := Some ''/usr/local''\<rparr>)
   \<and> \<not> isDirectory (posix project_fs) ''/''
         (Path_join (posix project_fs) [''/usr/local'', ''node_modules'', ''eslint''])
   \<and> \<not> isDirectory (posix project_fs) ''/''
         (Path_join (posix project_fs) [''/usr/local'', ''lib'', ''node_modules'', ''eslint''])
   \<and> findESLintDirectory (posix project_fs) (Some ''/proj/node_modules'') global_config
         (Some ''/proj'') fresh
       = (Inl PackageNotFoundError_path,
          fresh\<lparr>spawns := 1, NODE_PREFIX_PATH := Some ''/usr/local''\<rparr>)
   \<and> fst (findESLintDirectory (posix global_fs) None global_config None fresh)
       = Inr \<lparr>path = ''/usr/local/node_modules/eslint'', type = Global\<rparr>
   \<and> type \<lparr>path = ''/usr/local/node_modules/eslint'', type = Global\<rparr> \<noteq> BundledFallback"
proof -
  let ?s' = "fresh\<lparr>spawns := 1, NODE_PREFIX_PATH := Some ''/usr/local''\<rparr>"
  have g: "useGlobalEslint global_config" by code_simp
  have p: "prefixPath (posix project_fs) global_config fresh = (Inr ''/usr/local'', ?s')"
    by code_simp
  have wd: "cwd ?s' = ''/''" by code_simp
  have d1: "\<not> isDirectory (posix project_fs) ''/''
         (Path_join (posix project_fs) [''/usr/local'', ''node_modules'', ''eslint''])"
    by code_simp
  have d2: "\<not> isDirectory (posix project_fs) ''/''
         (Path_join (posix project_fs) [''/usr/local'', ''lib'', ''node_modules'', ''eslint''])"
    by code_simp
  from findESLintDirectory_global_not_found
    [where config = global_config and E = "posix project_fs" and s = fresh and s' = "?s'"
       and prefix = "''/usr/local''" and modulesDir = "Some ''/proj/node_modules''"
       and projectPath = "Some ''/proj''"]
    g p d1 d2 wd
  have missing: "findESLintDirectory (posix project_fs) (Some ''/proj/node_modules'')
         global_config (Some ''/proj'') fresh
       = (Inl PackageNotFoundError_path, ?s')"
    by simp
  have found: "fst (findESLintDirectory (posix global_fs) None global_config None fresh)
       = Inr \<lparr>path = ''/usr/local/node_modules/eslint'', type = Global\<rparr>"
    by code_simp
  from findESLintDirectory_global_not_found
    [where config = global_config and E = "posix global_fs" and s = fresh
       and modulesDir = None and projectPath = None and prefix = "[]" and s' = fresh]
    g found
  have "type \<lparr>path = ''/usr/local/node_modules/eslint'', type = Global\<rparr> \<noteq> BundledFallback"
    by blast
  with g p d1 d2 missing found show ?thesis by simp
qed

text \<open>
  C4. Let \<open>useGlobalEslint\<close> be off and \<open>advancedLocalNodeModules\<close> be unset (or
  empty). If \<open>modulesDir/eslint\<close> is a directory, \<open>findESLintDirectory\<close> returns
  it with the type local project; otherwise it returns the bundled path with the
  type bundled fallback. Either way it returns a location, not an error, and
  leaves the state as it was.
\<close>

theorem findESLintDirectory_local_project:
  "\<not> useGlobalEslint config \<and> \<not> truthy (advancedLocalNodeModules config) \<longrightarrow>
     findESLintDirectory E modulesDir config projectPath s =
       (if isDirectory E (cwd s) (Path_join E [or_empty modulesDir, ''eslint''])
        then Inr \<lparr>path = Path_join E [or_empty modulesDir, ''eslint''], type = LocalProject\<rparr>
        else Inr \<lparr>path = ESLINT_LOCAL_PATH s, type = BundledFallback\<rparr>, s)
     \<and> (\<forall>e. fst (findESLintDirectory E modulesDir config projectPath s) \<noteq> Inl e)"
  by (simp add: findESLintDirectory_def located_def)

theorem findESLintDirectory_local_project_witness:
  "\<not> useGlobalEslint local_config \<and> \<not> truthy (advancedLocalNodeModules local_config)
   \<and> findESLintDirectory (posix project_fs) (Some ''/proj/node_modules'') local_config
         (Some ''/proj'') fresh
       = (Inr \<lparr>path = ''/proj/node_modules/eslint'', type = LocalProject\<rparr>, fresh)
   \<and> findESLintDirectory (posix project_fs) (Some ''/proj/src'') local_config
         (Some ''/proj'') fresh
       = (Inr \<lparr>path = bundled, type = BundledFallback\<rparr>, fresh)"
proof -
  have c: "\<not> useGlobalEslint local_config \<and> \<not> truthy (advancedLocalNodeModules local_config)"
    by code_simp
  have j1: "Path_join (posix project_fs) [or_empty (Some ''/proj/node_modules''), ''eslint'']
      = ''/proj/node_modules/eslint''"
    by code_simp
  have d1: "isDirectory (posix project_fs) (cwd fresh) ''/proj/node_modules/eslint''"
    by code_simp
  have d2: "\<not> isDirectory (posix project_fs) (cwd fresh)
      (Path_join (posix project_fs) [or_empty (Some ''/proj/src''), ''eslint''])"
    by code_simp
  have b: "ESLINT_LOCAL_PATH fresh = bundled" by code_simp
  from findESLintDirectory_local_project
    [where config = local_config and E = "posix project_fs" and s = fresh
       and modulesDir = "Some ''/proj/node_modules''" and projectPath = "Some ''/proj''"]
    c j1 d1
  have first: "findESLintDirectory (posix project_fs) (Some ''/proj/node_modules'') local_config
         (Some ''/proj'') fresh
       = (Inr \<lparr>path = ''/proj/node_modules/eslint'', type = LocalProject\<rparr>, fresh)"
    by simp
  from findESLintDirectory_local_project
    [where config = local_config and E = "posix project_fs" and s = fresh
       and modulesDir = "Some ''/proj/src''" and projectPath = "Some ''/proj''"]
    c d2 b
  have second: "findESLintDirectory (posix project_fs) (Some ''/proj/src'') local_config
         (Some ''/proj'') fresh
       = (Inr \<lparr>path = bundled, type = BundledFallback\<rparr>, fresh)"
    by simp
  from c first second show ?thesis by simp
qed

section \<open>Properties of getESLintFromDirectory\<close>

text \<open>
  C2, as stated, fails: with \<open>useGlobalEslint\<close> set, the global ESLint directory
  is found, loading it throws an exception whose \<open>code\<close> is not
  \<open>MODULE_NOT_FOUND\<close>, and the call does not fail: it returns the bundled module.
\<close>

theorem getESLintFromDirectory_global_counterexample:
  "useGlobalEslint global_config
   \<and> fst (findESLintDirectory (posix broken_global_fs) None global_config None fresh)
       = Inr \<lparr>path = ''/usr/local/node_modules/eslint'', type = Global\<rparr>
   \<and> require (posix broken_global_fs) ''/usr/local/node_modules/eslint''
       = Inl (RequireError None)
   \<and> fst (getESLintFromDirectory (posix broken_global_fs) None global_config None fresh)
       = Inr bundled
   \<and> ESLINT_LOCAL_PATH fresh = bundled"
  by code_simp

text \<open>
  C2, amended. Let \<open>findESLintDirectory\<close> return a location and loading the module
  at its path fail. If the location is global and the exception has the code
  \<open>MODULE_NOT_FOUND\<close>, the call fails with the error \<open>ESLint not found, try
  restarting Atom to clear caches.\<close> In every other case (the location is not
  global, or the exception has another code) the bundled module is loaded
  instead: the call returns it, or fails with the exception that loading the
  bundled module throws.
\<close>

theorem getESLintFromDirectory_load_failure:
  "findESLintDirectory E modulesDir config projectPath s = (Inr loc, s')
     \<and> require E (path loc) = Inl e \<longrightarrow>
   (type loc = Global \<and> error_code e = Some ''MODULE_NOT_FOUND'' \<longrightarrow>
      getESLintFromDirectory E modulesDir config projectPath s
        = (Inl PackageNotFoundError_restart, s')
      \<and> is_PackageNotFoundError PackageNotFoundError_restart)
   \<and> (\<not> (type loc = Global \<and> error_code e = Some ''MODULE_NOT_FOUND'') \<longrightarrow>
      getESLintFromDirectory E modulesDir config projectPath s =
        (case require E (ESLINT_LOCAL_PATH s') of
           Inr m \<Rightarrow> (Inr m, s')
         | Inl e' \<Rightarrow> (Inl (Uncaught e'), s')))"
  by (auto simp: getESLintFromDirectory_def is_PackageNotFoundError_def
      dest!: findESLintDirectory_type_Global split: sum.splits)

theorem getESLintFromDirectory_load_failure_witness:
  "findESLintDirectory (posix unloadable_global_fs) None global_config None fresh
     = (Inr \<lparr>path = ''/usr/local/node_modules/eslint'', type = Global\<rparr>,
        fresh\<lparr>spawns := 1, NODE_PREFIX_PATH := Some ''/usr/local''\<rparr>)
   \<and> require (posix unloadable_global_fs) ''/usr/local/node_modules/eslint''
       = Inl (RequireError (Some ''MODULE_NOT_FOUND''))
   \<and> getESLintFromDirectory (posix unloadable_global_fs) None global_config None fresh
       = (Inl PackageNotFoundError_restart,
          fresh\<lparr>spawns := 1, NODE_PREFIX_PATH := Some ''/usr/local''\<rparr>)
   \<and> findESLintDirectory (posix broken_local_fs) (Some ''/proj/node_modules'') local_config
         (Some ''/proj'') fresh
     = (Inr \<lparr>path = ''/proj/node_modules/eslint'', type = LocalProject\<rparr>, fresh)
   \<and> require (posix broken_local_fs) ''/proj/node_modules/eslint''
       = Inl (RequireError (Some ''MODULE_NOT_FOUND''))
   \<and> getESLintFromDirectory (posix broken_local_fs) (Some ''/proj/node_modules'') local_config
         (Some ''/proj'') fresh
     = (Inr bundled, fresh)"
proof -
  let ?loc = "\<lparr>path = ''/usr/local/node_modules/eslint'', type = Global\<rparr>"
  let ?s' = "fresh\<lparr>spawns := 1, NODE_PREFIX_PATH := Some ''/usr/local''\<rparr>"
  have f: "findESLintDirectory (posix unloadable_global_fs) None global_config None fresh
     = (Inr ?loc, ?s')"
    by code_simp
  have r: "require (posix unloadable_global_fs) (path ?loc)
     = Inl (RequireError (Some ''MODULE_NOT_FOUND''))"
    by code_simp
  from getESLintFromDirectory_load_failure
    [where E = "posix unloadable_global_fs" and modulesDir = None and config = global_config
       and projectPath = None and s = fresh and loc = ?loc and s' = ?s'
       and e = "RequireError (Some ''MODULE_NOT_FOUND'')"]
    f r
  have global: "getESLintFromDirectory (posix unloadable_global_fs) None global_config None fresh
       = (Inl PackageNotFoundError_restart, ?s')"
    by simp
  let ?local = "\<lparr>path = ''/proj/node_modules/eslint'', type = LocalProject\<rparr>"
  have f': "findESLintDirectory (posix broken_local_fs) (Some ''/proj/node_modules'') local_config
         (Some ''/proj'') fresh
     = (Inr ?local, fresh)"
    by code_simp
  have r': "require (posix broken_local_fs) (path ?local)
     = Inl (RequireError (Some ''MODULE_NOT_FOUND''))"
    by code_simp
  have b: "require (posix broken_local_fs) (ESLINT_LOCAL_PATH fresh) = Inr bundled"
    by code_simp
  from getESLintFromDirectory_load_failure
    [where E = "posix broken_local_fs" and modulesDir = "Some ''/proj/node_modules''"
       and config = local_config and projectPath = "Some ''/proj''" and s = fresh
       and loc = ?local and s' = fresh and e = "RequireError (Some ''MODULE_NOT_FOUND'')"]
    f' r' b
  have local: "getESLintFromDirectory (posix broken_local_fs) (Some ''/proj/node_modules'')
         local_config (Some ''/proj'') fresh
     = (Inr bundled, fresh)"
    by simp
  from f r global f' r' local show ?thesis by simp
qed

section \<open>Properties of the POSIX path functions\<close>

lemma split_sep_nonempty: "split_sep p \<noteq> []"
  by (induction p) (auto split: list.splits)

lemma split_sep_append: "split_sep (p @ CHR ''/'' # q) = split_sep p @ split_sep q"
  by (induction p) (auto split: list.splits simp: split_sep_nonempty)

lemma split_sep_plain: "CHR ''/'' \<notin> set c \<Longrightarrow> split_sep c = [c]"
  by (induction c) auto

lemma chunks_append: "chunks (p @ CHR ''/'' # q) = chunks p @ chunks q"
  by (simp add: chunks_def split_sep_append)

lemma chunks_slash: "chunks (CHR ''/'' # q) = chunks q"
  by (simp add: chunks_def)

lemma chunks_plain: "plain c \<Longrightarrow> chunks c = [c]"
  by (simp add: chunks_def split_sep_plain plain_def)

lemma chunks_join_sep: "\<forall>c\<in>set cs. plain c \<Longrightarrow> chunks (join_sep cs) = cs"
proof (induction cs rule: join_sep.induct)
  case 1
  show ?case by (simp add: chunks_def)
next
  case (2 c)
  then show ?case by (simp add: chunks_plain)
next
  case (3 c d ds)
  then show ?case by (simp add: chunks_append chunks_plain)
qed

lemma chunks_absolute_of: "\<forall>c\<in>set cs. plain c \<Longrightarrow> chunks (absolute_of cs) = cs"
  by (simp add: absolute_of_def chunks_slash chunks_join_sep)

lemma normalize_absolute_foldl:
  "\<forall>c\<in>set cs. plain c \<Longrightarrow>
   foldl (\<lambda>acc c. if c = ''.'' then acc else if c = ''..'' then butlast acc else acc @ [c]) acc cs
     = acc @ cs"
  by (induction cs arbitrary: acc) (auto simp: plain_def)

lemma normalize_absolute_plain: "\<forall>c\<in>set cs. plain c \<Longrightarrow> normalize_absolute cs = cs"
  by (simp add: normalize_absolute_def normalize_absolute_foldl)

lemma posix_isAbsolute_absolute_of: "posix_isAbsolute (absolute_of cs)"
  by (simp add: posix_isAbsolute_def absolute_of_def)

lemma posix_join_absolute:
  assumes "\<forall>c\<in>set cs. plain c" "plain n"
  shows "posix_join [absolute_of cs, n] = absolute_of (cs @ [n])"
proof -
  have n: "n \<noteq> []" "last n \<noteq> CHR ''/''"
  proof -
    show "n \<noteq> []" using assms(2) by (simp add: plain_def)
    show "last n \<noteq> CHR ''/''" using assms(2) by (metis last_in_set plain_def)
  qed
  let ?j = "absolute_of cs @ CHR ''/'' # n"
  have ch: "chunks ?j = cs @ [n]"
    using assms by (simp add: chunks_append chunks_absolute_of chunks_plain)
  have abs: "posix_isAbsolute ?j" by (simp add: posix_isAbsolute_def absolute_of_def)
  have "posix_join [absolute_of cs, n] = posix_normalize ?j"
    using n by (simp add: posix_join_def absolute_of_def)
  also have "\<dots> = absolute_of (cs @ [n])"
    using n assms by (simp add: posix_normalize_def abs ch normalize_absolute_plain Let_def)
  finally show ?thesis .
qed

lemma posix_basename_absolute:
  assumes "\<forall>c\<in>set cs. plain c" "plain n"
  shows "posix_basename (absolute_of (cs @ [n])) = n"
proof -
  have "chunks (absolute_of (cs @ [n])) = cs @ [n]"
    using assms by (simp add: chunks_absolute_of)
  then show ?thesis
    by (cases cs) (simp_all add: posix_basename_def)
qed

lemma posix_dirname_absolute:
  assumes "\<forall>c\<in>set cs. plain c" "plain n"
  shows "posix_dirname (absolute_of (cs @ [n])) = absolute_of cs"
proof -
  have "chunks (absolute_of (cs @ [n])) = cs @ [n]"
    using assms by (simp add: chunks_absolute_of)
  then show ?thesis
    by (simp add: posix_dirname_def posix_isAbsolute_absolute_of)
qed

lemma posix_resolve_parent:
  assumes "\<forall>c\<in>set cs. plain c"
  shows "posix_resolve wd [absolute_of cs, ''..''] = absolute_of (butlast cs)"
proof -
  have dots: "chunks ''..'' = [''..'']" by (simp add: chunks_def)
  have "normalize_absolute (cs @ [''..'']) = butlast cs"
    using assms by (simp add: normalize_absolute_def normalize_absolute_foldl)
  then show ?thesis
    using assms
    by (simp add: posix_resolve_def chunks_absolute_of posix_isAbsolute_absolute_of dots
          posix_isAbsolute_def [of "''..''"])
qed


lemma absolute_of_inject:
  "\<forall>c\<in>set xs. plain c \<Longrightarrow> \<forall>c\<in>set ys. plain c \<Longrightarrow>
   (absolute_of xs = absolute_of ys) = (xs = ys)"
  by (metis chunks_absolute_of)

lemma plain_config_names: "n \<in> set config_names \<Longrightarrow> plain n"
  by (auto simp: config_names_def plain_def)

lemma find_in_none:
  "\<forall>n\<in>set names. \<not> r (posix_join [d, n]) \<Longrightarrow> find_in r d names = None"
  by (induction names) (simp_all add: Let_def)

lemma find_in_first:
  "\<forall>n\<in>set before. \<not> r (posix_join [d, n]) \<Longrightarrow> r (posix_join [d, n]) \<Longrightarrow>
   find_in r d (before @ n # after) = Some (posix_join [d, n])"
  by (induction before) (simp_all add: Let_def)

lemma plain_manifest: "plain ''package.json''"
  by (simp add: plain_def)

lemma candidate_readable:
  assumes "plain a" "\<forall>c\<in>set cs. plain c" "n \<in> set config_names"
    and "r (absolute_of [a, ''package.json''])"
    and "\<forall>p. r p \<and> posix_basename p \<in> set config_names \<longrightarrow> p = absolute_of [a, ''package.json'']"
  shows "r (posix_join [absolute_of cs, n]) = (cs = [a] \<and> n = ''package.json'')"
proof -
  have n: "plain n" using assms(3) by (rule plain_config_names)
  have j: "posix_join [absolute_of cs, n] = absolute_of (cs @ [n])"
    using assms(2) n by (rule posix_join_absolute)
  have b: "posix_basename (absolute_of (cs @ [n])) = n"
    using assms(2) n by (rule posix_basename_absolute)
  show ?thesis
  proof
    assume "r (posix_join [absolute_of cs, n])"
    with j b assms(3,5) have "absolute_of (cs @ [n]) = absolute_of [a, ''package.json'']"
      by auto
    moreover have "\<forall>c\<in>set (cs @ [n]). plain c" using assms(2) n by simp
    moreover have "\<forall>c\<in>set [a, ''package.json'']. plain c" using assms(1) plain_manifest by simp
    ultimately have "cs @ [n] = [a, ''package.json'']"
      by (simp only: absolute_of_inject)
    then show "cs = [a] \<and> n = ''package.json''"
      by (cases cs) auto
  next
    assume "cs = [a] \<and> n = ''package.json''"
    with j assms(4) show "r (posix_join [absolute_of cs, n])" by simp
  qed
qed

lemma find_in_only_manifest:
  assumes "plain a" "\<forall>c\<in>set cs. plain c"
    and "r (absolute_of [a, ''package.json''])"
    and "\<forall>p. r p \<and> posix_basename p \<in> set config_names \<longrightarrow> p = absolute_of [a, ''package.json'']"
  shows "find_in r (absolute_of cs) config_names =
           (if cs = [a] then Some (absolute_of [a, ''package.json'']) else None)"
proof (cases "cs = [a]")
  case True
  have split: "config_names =
      [''.eslintrc.js'', ''.eslintrc.yaml'', ''.eslintrc.yml'', ''.eslintrc.json'', ''.eslintrc'']
        @ ''package.json'' # []"
    by (simp add: config_names_def)
  have "\<forall>n\<in>set [''.eslintrc.js'', ''.eslintrc.yaml'', ''.eslintrc.yml'', ''.eslintrc.json'',
          ''.eslintrc'']. \<not> r (posix_join [absolute_of cs, n])"
  proof
    fix n
    assume n: "n \<in> set [''.eslintrc.js'', ''.eslintrc.yaml'', ''.eslintrc.yml'',
      ''.eslintrc.json'', ''.eslintrc'']"
    then have "n \<in> set config_names" by (auto simp: config_names_def)
    from candidate_readable [OF assms(1,2) this assms(3,4)] n
    show "\<not> r (posix_join [absolute_of cs, n])" by auto
  qed
  moreover have "r (posix_join [absolute_of cs, ''package.json''])"
    using candidate_readable [OF assms(1,2) _ assms(3,4), of "''package.json''"] True
    by (simp add: config_names_def)
  ultimately have "find_in r (absolute_of cs) config_names
      = Some (posix_join [absolute_of cs, ''package.json''])"
    unfolding split by (rule find_in_first)
  moreover have "posix_join [absolute_of cs, ''package.json''] = absolute_of [a, ''package.json'']"
    using posix_join_absolute [OF assms(2) plain_manifest] True by simp
  ultimately show ?thesis using True by simp
next
  case False
  have "\<forall>n\<in>set config_names. \<not> r (posix_join [absolute_of cs, n])"
    using candidate_readable [OF assms(1,2) _ assms(3,4)] False by simp
  then have "find_in r (absolute_of cs) config_names = None"
    by (rule find_in_none)
  then show ?thesis using False by simp
qed

lemma absolute_of_Nil: "absolute_of [] = ''/''"
  by (simp add: absolute_of_def)

section \<open>Properties of getConfigPath\<close>

lemma getConfigPath_not_found:
  "\<not> truthy (findCached E (cwd s) fileDir config_names) \<Longrightarrow>
   getConfigPath E s fileDir = Some (Inr None)"
  by (subst getConfigPath.simps) simp

lemma getConfigPath_found:
  "findCached E (cwd s) fileDir config_names = Some found \<Longrightarrow> found \<noteq> [] \<Longrightarrow>
   Path_basename E found \<noteq> ''package.json'' \<Longrightarrow>
   getConfigPath E s fileDir = Some (Inr (Some found))"
  by (subst getConfigPath.simps) (simp add: truthy_def)

lemma getConfigPath_embedded:
  "findCached E (cwd s) fileDir config_names = Some found \<Longrightarrow> found \<noteq> [] \<Longrightarrow>
   Path_basename E found = ''package.json'' \<Longrightarrow> require E found = Inr m \<Longrightarrow>
   eslintConfig E m \<Longrightarrow>
   getConfigPath E s fileDir = Some (Inr (Some found))"
  by (subst getConfigPath.simps) (simp add: truthy_def)

lemma getConfigPath_skip:
  "findCached E (cwd s) fileDir config_names = Some found \<Longrightarrow> found \<noteq> [] \<Longrightarrow>
   Path_basename E found = ''package.json'' \<Longrightarrow> require E found = Inr m \<Longrightarrow>
   \<not> eslintConfig E m \<Longrightarrow>
   getConfigPath E s fileDir =
     getConfigPath E s (Path_resolve E (cwd s) [Path_dirname E found, ''..''])"
  by (subst getConfigPath.simps) (simp add: truthy_def)

lemma getConfigPath_diverges:
  assumes "findCached E (cwd s) fileDir config_names = Some found" "found \<noteq> []"
    "Path_basename E found = ''package.json''" "require E found = Inr m" "\<not> eslintConfig E m"
    "Path_resolve E (cwd s) [Path_dirname E found, ''..''] = fileDir"
  shows "getConfigPath E s fileDir = None"
proof (rule ccontr)
  assume "getConfigPath E s fileDir \<noteq> None"
  then obtain y where y: "getConfigPath E s fileDir = Some y" by auto
  have "\<not> (E = E \<and> s = s \<and> fileDir = fileDir)"
  proof (rule getConfigPath.raw_induct
      [where P = "\<lambda>E' s' d y'. \<not> (E' = E \<and> s' = s \<and> d = fileDir)", OF _ y])
    fix f :: "'a env \<Rightarrow> state \<Rightarrow> string \<Rightarrow> (error + string option) option"
    fix E' s' d y'
    assume IH: "\<And>E' s' d y'. f E' s' d = Some y' \<Longrightarrow> \<not> (E' = E \<and> s' = s \<and> d = fileDir)"
    assume body:
      "(let found = findCached E' (cwd s') d config_names
        in if truthy found then
             (if Path_basename E' (the found) = ''package.json'' then
                (case require E' (the found) of
                   Inl e \<Rightarrow> Some (Inl (Uncaught e))
                 | Inr m \<Rightarrow>
                     (if eslintConfig E' m then Some (Inr found)
                      else f E' s' (Path_resolve E' (cwd s') [Path_dirname E' (the found), ''..''])))
              else Some (Inr found))
           else Some (Inr None)) = Some y'"
    show "\<not> (E' = E \<and> s' = s \<and> d = fileDir)"
    proof
      assume "E' = E \<and> s' = s \<and> d = fileDir"
      with body assms have "f E s fileDir = Some y'"
        by (simp add: truthy_def)
      from IH [OF this] show False by simp
    qed
  qed
  then show False by simp
qed


lemma getConfigPath_only_manifest:
  assumes "plain a" "plain b" "plain c"
    and "readable F (absolute_of [a, ''package.json''])"
    and "load_failure F (absolute_of [a, ''package.json'']) = None"
    and "\<not> embedded F (absolute_of [a, ''package.json''])"
    and "\<forall>p. readable F p \<and> posix_basename p \<in> set config_names
           \<longrightarrow> p = absolute_of [a, ''package.json'']"
  shows "getConfigPath (posix F) s (absolute_of [a, b, c]) = Some (Inr None)"
proof -
  let ?M = "absolute_of [a, ''package.json'']"
  note fi = find_in_only_manifest [OF assms(1) _ assms(4,7)]
  have abc: "find_in (readable F) (absolute_of [a, b, c]) config_names = None"
    using fi [of "[a, b, c]"] assms(1-3) by simp
  have ab: "find_in (readable F) (absolute_of [a, b]) config_names = None"
    using fi [of "[a, b]"] assms(1-3) by simp
  have a: "find_in (readable F) (absolute_of [a]) config_names = Some ?M"
    using fi [of "[a]"] assms(1) by simp
  have root: "find_in (readable F) ''/'' config_names = None"
    using fi [of "[]"] by (simp add: absolute_of_Nil)
  have "chunks (absolute_of [a, b, c]) = [a, b, c]"
    using assms(1-3) by (simp add: chunks_absolute_of)
  then have first: "findCached (posix F) (cwd s) (absolute_of [a, b, c]) config_names = Some ?M"
    by (simp add: posix_def posix_findCached_def abc ab a)
  have "chunks ''/'' = []" by (simp add: chunks_def)
  then have second: "findCached (posix F) (cwd s) ''/'' config_names = None"
    by (simp add: posix_def posix_findCached_def root)
  have nonempty: "?M \<noteq> []" by (simp add: absolute_of_def)
  have base: "Path_basename (posix F) ?M = ''package.json''"
    using posix_basename_absolute [of "[a]" "''package.json''"] assms(1) plain_manifest
    by (simp add: posix_def)
  have load: "require (posix F) ?M = Inr ?M"
    using assms(5) by (simp add: posix_def)
  have noconf: "\<not> eslintConfig (posix F) ?M"
    using assms(6) by (simp add: posix_def)
  have parent: "Path_resolve (posix F) (cwd s) [Path_dirname (posix F) ?M, ''..''] = ''/''"
    using posix_dirname_absolute [of "[a]" "''package.json''"] posix_resolve_parent [of "[a]"]
      assms(1) plain_manifest
    by (simp add: posix_def absolute_of_Nil)
  have "getConfigPath (posix F) s (absolute_of [a, b, c]) = getConfigPath (posix F) s ''/''"
    using getConfigPath_skip [OF first nonempty base load noconf] parent by simp
  also have "\<dots> = Some (Inr None)"
    by (rule getConfigPath_not_found) (simp add: second truthy_def)
  finally show ?thesis .
qed

text \<open>
  C5. The names searched for end with \<open>package.json\<close>. When the first match is
  not a manifest, or is a manifest with an \<open>eslintConfig\<close> section, it is the
  answer; when it is a manifest without that section, the answer is that of
  the whole search started again from the parent of the manifest's directory;
  when nothing matches the answer is \<open>null\<close>. Consequently, over a POSIX file
  system whose only candidate anywhere is the manifest \<open>/a/package.json\<close>, without
  an \<open>eslintConfig\<close> section, the search started at \<open>/a/b/c\<close> returns \<open>null\<close>.
\<close>

theorem getConfigPath_manifest_last_and_skipped:
  "last config_names = ''package.json''
   \<and> (findCached E (cwd s) fileDir config_names = Some found \<and> found \<noteq> [] \<longrightarrow>
        (Path_basename E found \<noteq> ''package.json'' \<longrightarrow>
           getConfigPath E s fileDir = Some (Inr (Some found)))
        \<and> (Path_basename E found = ''package.json'' \<and> require E found = Inr m \<longrightarrow>
             (eslintConfig E m \<longrightarrow> getConfigPath E s fileDir = Some (Inr (Some found)))
             \<and> (\<not> eslintConfig E m \<longrightarrow>
                  getConfigPath E s fileDir =
                    getConfigPath E s
                      (Path_resolve E (cwd s) [Path_dirname E found, ''..'']))))
   \<and> (findCached E (cwd s) fileDir config_names = None \<longrightarrow>
        getConfigPath E s fileDir = Some (Inr None))
   \<and> (plain a \<and> plain b \<and> plain c
        \<and> readable F (absolute_of [a, ''package.json''])
        \<and> load_failure F (absolute_of [a, ''package.json'']) = None
        \<and> \<not> embedded F (absolute_of [a, ''package.json''])
        \<and> (\<forall>p. readable F p \<and> posix_basename p \<in> set config_names
               \<longrightarrow> p = absolute_of [a, ''package.json''])
      \<longrightarrow> getConfigPath (posix F) s (absolute_of [a, b, c]) = Some (Inr None))"
proof (intro conjI impI)
  show "last config_names = ''package.json''"
    by (simp add: config_names_def)
next
  assume "findCached E (cwd s) fileDir config_names = None"
  then show "getConfigPath E s fileDir = Some (Inr None)"
    by (simp add: getConfigPath_not_found truthy_def)
next
  assume "plain a \<and> plain b \<and> plain c
        \<and> readable F (absolute_of [a, ''package.json''])
        \<and> load_failure F (absolute_of [a, ''package.json'']) = None
        \<and> \<not> embedded F (absolute_of [a, ''package.json''])
        \<and> (\<forall>p. readable F p \<and> posix_basename p \<in> set config_names
               \<longrightarrow> p = absolute_of [a, ''package.json''])"
  then show "getConfigPath (posix F) s (absolute_of [a, b, c]) = Some (Inr None)"
    by (intro getConfigPath_only_manifest) simp_all
qed (simp_all add: getConfigPath_found getConfigPath_embedded getConfigPath_skip)

theorem getConfigPath_manifest_last_and_skipped_witness:
  "plain ''a'' \<and> plain ''b'' \<and> plain ''c''
   \<and> absolute_of [''a'', ''package.json''] = ''/a/package.json''
   \<and> absolute_of [''a'', ''b'', ''c''] = ''/a/b/c''
   \<and> readable manifest_fs ''/a/package.json''
   \<and> load_failure manifest_fs ''/a/package.json'' = None
   \<and> \<not> embedded manifest_fs ''/a/package.json''
   \<and> findCached (posix manifest_fs) (cwd fresh) ''/a/b/c'' config_names = Some ''/a/package.json''
   \<and> getConfigPath (posix manifest_fs) fresh ''/a/b/c''
       = getConfigPath (posix manifest_fs) fresh ''/''
   \<and> getConfigPath (posix manifest_fs) fresh ''/a/b/c'' = Some (Inr None)
   \<and> findCached (posix project_fs) (cwd fresh) ''/proj/src'' config_names
       = Some ''/proj/.eslintrc.json''
   \<and> getConfigPath (posix project_fs) fresh ''/proj/src'' = Some (Inr (Some ''/proj/.eslintrc.json''))"
proof -
  let ?M = "''/a/package.json''"
  have pl: "plain ''a'' \<and> plain ''b'' \<and> plain ''c''" by code_simp
  have m: "absolute_of [''a'', ''package.json''] = ?M" by code_simp
  have d: "absolute_of [''a'', ''b'', ''c''] = ''/a/b/c''" by code_simp
  have fs: "readable manifest_fs ?M \<and> load_failure manifest_fs ?M = None
      \<and> \<not> embedded manifest_fs ?M"
    by code_simp
  have only: "\<forall>p. readable manifest_fs p \<and> posix_basename p \<in> set config_names \<longrightarrow> p = ?M"
  proof (intro allI impI)
    fix p
    assume a: "readable manifest_fs p \<and> posix_basename p \<in> set config_names"
    then have "p \<in> set [''/'', ''/a'', ''/a/b'', ''/a/b/c'', ?M]"
      by (simp add: manifest_fs_def fsys_of_def)
    moreover have "\<forall>q \<in> set [''/'', ''/a'', ''/a/b'', ''/a/b/c''].
        posix_basename q \<notin> set config_names"
      by code_simp
    ultimately show "p = ?M" using a by auto
  qed
  have fc: "findCached (posix manifest_fs) (cwd fresh) ''/a/b/c'' config_names = Some ?M"
    by code_simp
  have step: "?M \<noteq> [] \<and> Path_basename (posix manifest_fs) ?M = ''package.json''
      \<and> require (posix manifest_fs) ?M = Inr ?M \<and> \<not> eslintConfig (posix manifest_fs) ?M
      \<and> Path_resolve (posix manifest_fs) (cwd fresh) [Path_dirname (posix manifest_fs) ?M, ''..'']
          = ''/''"
    by code_simp
  note inst = getConfigPath_manifest_last_and_skipped
    [where E = "posix manifest_fs" and s = fresh and fileDir = "''/a/b/c''" and found = ?M
       and m = ?M and F = manifest_fs and a = "''a''" and b = "''b''" and c = "''c''"]
  from inst fc step have skip: "getConfigPath (posix manifest_fs) fresh ''/a/b/c''
       = getConfigPath (posix manifest_fs) fresh ''/''"
    by simp
  from inst pl m d fs only have null: "getConfigPath (posix manifest_fs) fresh ''/a/b/c''
       = Some (Inr None)"
    by simp
  have fc': "findCached (posix project_fs) (cwd fresh) ''/proj/src'' config_names
       = Some ''/proj/.eslintrc.json''"
    by code_simp
  have rc: "''/proj/.eslintrc.json'' \<noteq> []
      \<and> Path_basename (posix project_fs) ''/proj/.eslintrc.json'' \<noteq> ''package.json''"
    by code_simp
  from getConfigPath_manifest_last_and_skipped
    [where E = "posix project_fs" and s = fresh and fileDir = "''/proj/src''"
       and found = "''/proj/.eslintrc.json''" and m = "[]" and F = manifest_fs
       and a = "[]" and b = "[]" and c = "[]"]
    fc' rc
  have found: "getConfigPath (posix project_fs) fresh ''/proj/src''
       = Some (Inr (Some ''/proj/.eslintrc.json''))"
    by simp
  from pl m d fs fc skip null fc' found show ?thesis by simp
qed

text \<open>
  C6 does not hold of the code. On a file system whose root has a manifest
  \<open>/package.json\<close> without an \<open>eslintConfig\<close> section and no other candidate, the
  manifest is the first match of the search from the root, and the parent of its
  directory is the root again: \<open>getConfigPath\<close> calls itself on the same
  directory for ever and returns nothing, from the root and from every directory
  below it that has no candidate of its own.
\<close>

theorem getConfigPath_root_manifest_never_returns:
  "getConfigPath (posix root_manifest_fs) fresh ''/'' = None
   \<and> getConfigPath (posix root_manifest_fs) fresh ''/a/b'' = None"
proof -
  let ?E = "posix root_manifest_fs"
  let ?M = "''/package.json''"
  have fc: "findCached ?E (cwd fresh) ''/'' config_names = Some ?M"
    by code_simp
  have step: "?M \<noteq> [] \<and> Path_basename ?E ?M = ''package.json'' \<and> require ?E ?M = Inr ?M
      \<and> \<not> eslintConfig ?E ?M
      \<and> Path_resolve ?E (cwd fresh) [Path_dirname ?E ?M, ''..''] = ''/''"
    by code_simp
  have root: "getConfigPath ?E fresh ''/'' = None"
    using fc step by (intro getConfigPath_diverges [where found = ?M and m = ?M]) simp_all
  have fc': "findCached ?E (cwd fresh) ''/a/b'' config_names = Some ?M"
    by code_simp
  have "getConfigPath ?E fresh ''/a/b'' = getConfigPath ?E fresh ''/''"
    using getConfigPath_skip [where E = ?E and s = fresh and fileDir = "''/a/b''"
        and found = ?M and m = ?M] fc' step
    by simp
  with root show ?thesis by simp
qed

section \<open>Properties of getCLIEngineOptions and getRelativePath\<close>

lemma truthy_Some: "truthy v \<Longrightarrow> v = Some (the v)"
  by (cases v) (simp_all add: truthy_def)

text \<open>
  C7. In the options that \<open>getCLIEngineOptions\<close> builds, \<open>fix\<close> says whether the
  type is \<open>fix\<close>, \<open>ignore\<close> is the negation of \<open>disableEslintIgnore\<close>, \<open>ignorePath\<close>
  is set exactly when ignoring is not disabled and the upward search from
  \<open>fileDir\<close> finds an ignore file, and is then that file, and \<open>configFile\<close> is
  set exactly when the given configuration path is \<open>null\<close> and \<open>eslintrcPath\<close> is
  configured, and is then the cleaned \<open>eslintrcPath\<close>.
\<close>

theorem getCLIEngineOptions_flags:
  "fix' (fst (getCLIEngineOptions E type' config rules' filePath fileDir givenConfigPath s))
     = (type' = ''fix'')
   \<and> ignore (fst (getCLIEngineOptions E type' config rules' filePath fileDir givenConfigPath s))
     = (\<not> disableEslintIgnore config)
   \<and> (ignorePath (fst (getCLIEngineOptions E type' config rules' filePath fileDir givenConfigPath s))
        \<noteq> None)
     = (\<not> disableEslintIgnore config \<and> truthy (findCached E (cwd s) fileDir [''.eslintignore'']))
   \<and> ignorePath (fst (getCLIEngineOptions E type' config rules' filePath fileDir givenConfigPath s))
     = (if \<not> disableEslintIgnore config \<and> truthy (findCached E (cwd s) fileDir [''.eslintignore''])
        then findCached E (cwd s) fileDir [''.eslintignore''] else None)
   \<and> (configFile (fst (getCLIEngineOptions E type' config rules' filePath fileDir givenConfigPath s))
        \<noteq> None)
     = (givenConfigPath = None \<and> truthy (eslintrcPath config))
   \<and> configFile (fst (getCLIEngineOptions E type' config rules' filePath fileDir givenConfigPath s))
     = (if givenConfigPath = None \<and> truthy (eslintrcPath config)
        then Some (cleanPath E (eslintrcPath config)) else None)"
  by (auto simp: getCLIEngineOptions_def Let_def dest: truthy_Some)

theorem getCLIEngineOptions_flags_witness:
  "fst (getCLIEngineOptions (posix project_fs) ''fix''
          (local_config\<lparr>eslintrcPath := Some ''/home/me/.eslintrc''\<rparr>) ()
          ''/proj/src/a.js'' ''/proj/src'' None fresh)
     = \<lparr>rules = (), ignore = True, fix' = True, ignorePath = Some ''/proj/.eslintignore'',
        rulePaths = [], configFile = Some ''/home/me/.eslintrc''\<rparr>"
proof -
  let ?config = "local_config\<lparr>eslintrcPath := Some ''/home/me/.eslintrc''\<rparr>"
  let ?opts = "fst (getCLIEngineOptions (posix project_fs) ''fix'' ?config ()
          ''/proj/src/a.js'' ''/proj/src'' None fresh)"
  have c: "\<not> disableEslintIgnore ?config \<and> truthy (eslintrcPath ?config)
      \<and> cleanPath (posix project_fs) (eslintrcPath ?config) = ''/home/me/.eslintrc''"
    by code_simp
  have i: "findCached (posix project_fs) (cwd fresh) ''/proj/src'' [''.eslintignore'']
      = Some ''/proj/.eslintignore''"
    by code_simp
  have t: "truthy (Some ''/proj/.eslintignore'')" by code_simp
  have r: "rules ?opts = () \<and> rulePaths ?opts = []" by code_simp
  from getCLIEngineOptions_flags
    [where E = "posix project_fs" and type' = "''fix''" and config = ?config and rules' = "()"
       and filePath = "''/proj/src/a.js''" and fileDir = "''/proj/src''"
       and givenConfigPath = None and s = fresh]
    c i t
  have "fix' ?opts = True \<and> ignore ?opts = True
      \<and> ignorePath ?opts = Some ''/proj/.eslintignore''
      \<and> configFile ?opts = Some ''/home/me/.eslintrc''"
    by simp
  with r show ?thesis by simp
qed

lemma posix_resolve_absolute:
  assumes "\<forall>c\<in>set cs. plain c"
  shows "posix_resolve wd [absolute_of cs] = absolute_of cs"
  using assms
  by (simp add: posix_resolve_def chunks_absolute_of posix_isAbsolute_absolute_of
        normalize_absolute_plain)

text \<open>
  C9, as stated, fails: with \<open>disableEslintIgnore\<close> set and the project path
  \<open>/gone\<close>, which is not empty and does not exist, \<open>process.chdir\<close> throws; the call
  fails with that exception and the working directory stays \<open>/\<close>.
\<close>

theorem getRelativePath_missing_root_counterexample:
  "disableEslintIgnore (local_config\<lparr>disableEslintIgnore := True\<rparr>)
   \<and> ''/gone'' \<noteq> []
   \<and> \<not> readable project_fs ''/gone''
   \<and> getRelativePath (posix project_fs) ''/proj/src'' ''/proj/src/a.js''
         (local_config\<lparr>disableEslintIgnore := True\<rparr>) (Some ''/gone'') fresh
       = (Inl (ChdirError ''/gone''), fresh)
   \<and> cwd fresh = ''/''"
  by code_simp

text \<open>
  C9, amended. Let \<open>disableEslintIgnore\<close> be set and the project path be not empty.
  If \<open>process.chdir\<close> enters the project path, \<open>getRelativePath\<close> makes it the working
  directory and returns \<open>filePath\<close> relative to the project path; if
  \<open>process.chdir\<close> throws, the call fails with that exception and leaves the state
  as it was. Over a POSIX file system, a project path that is the absolute path
  of a readable directory is entered and becomes the working directory as it is.
\<close>

theorem getRelativePath_project_root:
  "(disableEslintIgnore config \<and> projectPath \<noteq> [] \<longrightarrow>
      (process_chdir E (cwd s) projectPath = Some wd \<longrightarrow>
         getRelativePath E fileDir filePath config (Some projectPath) s
           = (Inr (Path_relative E wd projectPath filePath), s\<lparr>cwd := wd\<rparr>))
      \<and> (process_chdir E (cwd s) projectPath = None \<longrightarrow>
           getRelativePath E fileDir filePath config (Some projectPath) s
             = (Inl (ChdirError projectPath), s)))
   \<and> (disableEslintIgnore config \<and> (\<forall>c\<in>set root. plain c)
        \<and> readable F (absolute_of root) \<and> directory F (absolute_of root) \<longrightarrow>
        getRelativePath (posix F) fileDir filePath config (Some (absolute_of root)) s
          = (Inr (posix_relative (absolute_of root) (absolute_of root) filePath),
             s\<lparr>cwd := absolute_of root\<rparr>))"
proof (intro conjI impI)
  assume "disableEslintIgnore config \<and> (\<forall>c\<in>set root. plain c)
        \<and> readable F (absolute_of root) \<and> directory F (absolute_of root)"
  moreover have "absolute_of root \<noteq> []" by (simp add: absolute_of_def)
  ultimately show "getRelativePath (posix F) fileDir filePath config (Some (absolute_of root)) s
          = (Inr (posix_relative (absolute_of root) (absolute_of root) filePath),
             s\<lparr>cwd := absolute_of root\<rparr>)"
    by (simp add: getRelativePath_def chdir_def truthy_def posix_def posix_resolve_absolute)
qed (simp_all add: getRelativePath_def chdir_def truthy_def)

theorem getRelativePath_project_root_witness:
  "disableEslintIgnore (local_config\<lparr>disableEslintIgnore := True\<rparr>)
   \<and> process_chdir (posix project_fs) (cwd fresh) ''/proj'' = Some ''/proj''
   \<and> getRelativePath (posix project_fs) ''/proj/src'' ''/proj/src/a.js''
         (local_config\<lparr>disableEslintIgnore := True\<rparr>) (Some ''/proj'') fresh
       = (Inr ''src/a.js'', fresh\<lparr>cwd := ''/proj''\<rparr>)
   \<and> process_chdir (posix project_fs) (cwd fresh) ''/gone'' = None
   \<and> getRelativePath (posix project_fs) ''/proj/src'' ''/proj/src/a.js''
         (local_config\<lparr>disableEslintIgnore := True\<rparr>) (Some ''/gone'') fresh
       = (Inl (ChdirError ''/gone''), fresh)
   \<and> absolute_of [''proj''] = ''/proj''
   \<and> readable project_fs ''/proj'' \<and> directory project_fs ''/proj''
   \<and> posix_relative ''/proj'' ''/proj'' ''/proj/src/a.js'' = ''src/a.js''"
proof -
  let ?config = "local_config\<lparr>disableEslintIgnore := True\<rparr>"
  have d: "disableEslintIgnore ?config" by code_simp
  have ok: "process_chdir (posix project_fs) (cwd fresh) ''/proj'' = Some ''/proj''"
    by code_simp
  have no: "process_chdir (posix project_fs) (cwd fresh) ''/gone'' = None"
    by code_simp
  have r: "Path_relative (posix project_fs) ''/proj'' ''/proj'' ''/proj/src/a.js'' = ''src/a.js''"
    by code_simp
  have r': "posix_relative ''/proj'' ''/proj'' ''/proj/src/a.js'' = ''src/a.js''"
    by code_simp
  have a: "absolute_of [''proj''] = ''/proj''" by code_simp
  have pl: "\<forall>c\<in>set [''proj'']. plain c" by code_simp
  have fs: "readable project_fs ''/proj'' \<and> directory project_fs ''/proj''" by code_simp
  from getRelativePath_project_root
    [where config = ?config and projectPath = "''/proj''" and E = "posix project_fs"
       and fileDir = "''/proj/src''" and filePath = "''/proj/src/a.js''" and s = fresh
       and wd = "''/proj''" and root = "[''proj'']" and F = project_fs]
    d ok r
  have entered: "getRelativePath (posix project_fs) ''/proj/src'' ''/proj/src/a.js'' ?config
      (Some ''/proj'') fresh = (Inr ''src/a.js'', fresh\<lparr>cwd := ''/proj''\<rparr>)"
    by simp
  from getRelativePath_project_root
    [where config = ?config and projectPath = "''/gone''" and E = "posix project_fs"
       and fileDir = "''/proj/src''" and filePath = "''/proj/src/a.js''" and s = fresh
       and wd = "''/proj''" and root = "[''proj'']" and F = project_fs]
    d no
  have thrown: "getRelativePath (posix project_fs) ''/proj/src'' ''/proj/src/a.js'' ?config
      (Some ''/gone'') fresh = (Inl (ChdirError ''/gone''), fresh)"
    by simp
  from d ok entered no thrown a fs r' show ?thesis by simp
qed

text \<open>
  C10. \<open>getCLIEngineOptions\<close> leaves the state, and so the working directory, as
  it was. Where the upward search finds an ignore file (and ignoring is not
  disabled), \<open>getRelativePath\<close> makes the directory of that file the working
  directory (unless \<open>process.chdir\<close> throws, which leaves it as it was), while
  \<open>getCLIEngineOptions\<close> only records the file as \<open>ignorePath\<close>.
\<close>

theorem getCLIEngineOptions_keeps_cwd:
  "snd (getCLIEngineOptions E type' config rules' filePath fileDir givenConfigPath s) = s
   \<and> cwd (snd (getCLIEngineOptions E type' config rules' filePath fileDir givenConfigPath s))
       = cwd s
   \<and> (\<not> disableEslintIgnore config
        \<and> truthy (findCached E (cwd s) fileDir [''.eslintignore'']) \<longrightarrow>
        ignorePath (fst (getCLIEngineOptions E type' config rules' filePath fileDir
                           givenConfigPath s))
          = findCached E (cwd s) fileDir [''.eslintignore'']
        \<and> cwd (snd (getRelativePath E fileDir filePath config projectPath s))
          = (case process_chdir E (cwd s)
                    (Path_dirname E (the (findCached E (cwd s) fileDir [''.eslintignore''])))
             of Some wd \<Rightarrow> wd | None \<Rightarrow> cwd s))"
  by (simp add: getCLIEngineOptions_def getRelativePath_def chdir_def Let_def
      split: option.splits)

theorem getCLIEngineOptions_keeps_cwd_witness:
  "\<not> disableEslintIgnore local_config
   \<and> findCached (posix project_fs) (cwd fresh) ''/proj/src'' [''.eslintignore'']
       = Some ''/proj/.eslintignore''
   \<and> cwd fresh = ''/''
   \<and> cwd (snd (getCLIEngineOptions (posix project_fs) ''lint'' local_config ()
                  ''/proj/src/a.js'' ''/proj/src'' None fresh)) = ''/''
   \<and> ignorePath (fst (getCLIEngineOptions (posix project_fs) ''lint'' local_config ()
                  ''/proj/src/a.js'' ''/proj/src'' None fresh)) = Some ''/proj/.eslintignore''
   \<and> cwd (snd (getRelativePath (posix project_fs) ''/proj/src'' ''/proj/src/a.js'' local_config
                  (Some ''/proj'') fresh)) = ''/proj''"
proof -
  have c: "\<not> disableEslintIgnore local_config" by code_simp
  have i: "findCached (posix project_fs) (cwd fresh) ''/proj/src'' [''.eslintignore'']
      = Some ''/proj/.eslintignore''"
    by code_simp
  have t: "truthy (Some ''/proj/.eslintignore'')" by code_simp
  have w: "cwd fresh = ''/''" by code_simp
  have d: "Path_dirname (posix project_fs) ''/proj/.eslintignore'' = ''/proj''" by code_simp
  have e: "process_chdir (posix project_fs) ''/'' ''/proj'' = Some ''/proj''" by code_simp
  from getCLIEngineOptions_keeps_cwd
    [where E = "posix project_fs" and type' = "''lint''" and config = local_config
       and rules' = "()" and filePath = "''/proj/src/a.js''" and fileDir = "''/proj/src''"
       and givenConfigPath = None and s = fresh and projectPath = "Some ''/proj''"]
    c i t w d e
  show ?thesis by simp
qed

end
